theory Spec2Isabelle
  imports Complex_Main "HOL-Library.Log_Nat"
begin

section \<open>Maturity report generator (scripts/generate-maturity-report.py)\<close>

subsection \<open>Data\<close>

text \<open>
  The \<open>scores\<close> dictionary of the assessment record. The scores are the integer counts the
  assessment writes; Python integers are unbounded, hence \<open>int\<close>.
\<close>

record scores =
  total :: int
  percentage :: int
  level1 :: int
  level2 :: int
  level3 :: int
  level4 :: int
  level5 :: int

record report_data =
  timestamp :: string
  project :: string
  scores :: scores
  maturityLevel :: string

subsection \<open>The recommendation engine\<close>

text \<open>
  \<open>_generate_recommendations\<close> appends to one list, block after block; each block below is
  the list of strings one \<open>if\<close> block of the source appends, in its order.
\<close>

definition level1_block :: "scores \<Rightarrow> string list" where
  "level1_block s =
     (if level1 s < 20 then
        (if level1 s < 5 then [''Create a Dockerfile for containerizing the application''] else [])
        @ (if level1 s < 10 then [''Implement multi-stage builds to optimize container size''] else [])
        @ (if level1 s < 15 then [''Configure containers to run as non-root user''] else [])
        @ [''Use minimal base images (distroless or alpine)'']
      else [])"

definition level2_block :: "scores \<Rightarrow> string list" where
  "level2_block s =
     (if level2 s < 35 \<and> level1 s \<ge> 15 then
        (if level2 s < 10 then [''Define Custom Resource Definitions (CRDs)''] else [])
        @ (if level2 s < 20 then [''Implement Kubernetes controller pattern''] else [])
        @ [''Create Helm charts for deployment'']
        @ [''Configure RBAC policies'']
      else [])"

definition level3_block :: "scores \<Rightarrow> string list" where
  "level3_block s =
     (if level3 s < 25 \<and> level2 s \<ge> 25 then
        [''Decompose application into microservices'',
         ''Implement service mesh for inter-service communication'',
         ''Add distributed tracing with OpenTelemetry'']
      else [])"

definition level4_block :: "scores \<Rightarrow> string list" where
  "level4_block s =
     (if level4 s < 15 \<and> level3 s \<ge> 15 then
        [''Integrate with cloud provider services (AWS/Azure/GCP)'',
         ''Implement multi-cloud support'',
         ''Add cost optimization features'']
      else [])"

definition level5_block :: "scores \<Rightarrow> string list" where
  "level5_block s =
     (if level5 s < 20 \<and> level4 s \<ge> 10 then
        [''Implement GitOps workflow'',
         ''Add comprehensive E2E testing'',
         ''Implement predictive scaling and self-healing'']
      else [])"

definition excellent :: string where
  "excellent = ''Excellent! Continue maintaining high standards and consider contributing to CNCF''"

definition generate_recommendations :: "scores \<Rightarrow> string list" where
  "generate_recommendations s =
     (let recommendations =
            level1_block s @ level2_block s @ level3_block s @ level4_block s @ level5_block s
      in if recommendations = [] then [excellent] else recommendations)"

text \<open>The texts each level's block can append, for stating which level a recommendation is of.\<close>

definition level2_texts :: "string set" where
  "level2_texts =
     {''Define Custom Resource Definitions (CRDs)'', ''Implement Kubernetes controller pattern'',
      ''Create Helm charts for deployment'', ''Configure RBAC policies''}"

definition level3_texts :: "string set" where
  "level3_texts =
     {''Decompose application into microservices'',
      ''Implement service mesh for inter-service communication'',
      ''Add distributed tracing with OpenTelemetry''}"

definition level4_texts :: "string set" where
  "level4_texts =
     {''Integrate with cloud provider services (AWS/Azure/GCP)'',
      ''Implement multi-cloud support'', ''Add cost optimization features''}"

definition level5_texts :: "string set" where
  "level5_texts =
     {''Implement GitOps workflow'', ''Add comprehensive E2E testing'',
      ''Implement predictive scaling and self-healing''}"

subsection \<open>Python errors and floats\<close>

text \<open>The exceptions the modelled code can raise; the string is the exception's message.\<close>

datatype error =
    ZeroDivisionError
  | OverflowError
  | KeyError string
  | JSONDecodeError string
  | OSError string
  | KeyboardInterrupt

text \<open>
  A Python \<open>float\<close> is an IEEE 754 binary64 number. A finite one is the rational it denotes;
  NaN does not arise from integer scores. Arithmetic rounds the exact result to 53 significant
  bits, ties to even (\<open>round53\<close>). Subnormal results (magnitude below \<open>2 ^ -1022\<close>) are not
  modelled: every quotient of a nonzero integer by one of this program's constants has
  magnitude at least \<open>1 / 35\<close>.
\<close>

datatype pyfloat = Finite rat | PosInf | NegInf

definition round_half_even :: "rat \<Rightarrow> int" where
  "round_half_even x =
     (let f = \<lfloor>x\<rfloor>; d = x - of_int f
      in if d < 1 / 2 then f else if 1 / 2 < d then f + 1 else if even f then f else f + 1)"

definition scale2 :: "rat \<Rightarrow> int \<Rightarrow> rat" where
  "scale2 x e = (if 0 \<le> e then x * 2 ^ nat e else x / 2 ^ nat (- e))"

definition ilog2 :: "rat \<Rightarrow> int" where
  \<comment> \<open>\<open>\<lfloor>log\<^sub>2 x\<rfloor>\<close> for \<open>x > 0\<close>\<close>
  "ilog2 x =
     (let (p, q) = quotient_of x; k = bitlen p - bitlen q
      in if 1 \<le> scale2 x (- k) then k else k - 1)"

definition round53 :: "rat \<Rightarrow> rat" where
  "round53 x =
     (if x = 0 then 0
      else let e = ilog2 \<bar>x\<bar> - 52 in scale2 (of_int (round_half_even (scale2 x (- e)))) e)"

definition dbl_max :: rat where
  "dbl_max = (2 ^ 53 - 1) * 2 ^ 971"

definition truediv :: "int \<Rightarrow> int \<Rightarrow> error + pyfloat" where
  \<comment> \<open>\<open>a / b\<close> on two Python ints: the correctly rounded quotient\<close>
  "truediv a b =
     (if b = 0 then Inl ZeroDivisionError
      else let q = round53 (of_int a / of_int b)
           in if dbl_max < \<bar>q\<bar> then Inl OverflowError else Inr (Finite q))"

fun fmul :: "pyfloat \<Rightarrow> rat \<Rightarrow> pyfloat" where
  \<comment> \<open>\<open>x * c\<close> for a finite constant \<open>c > 0\<close>\<close>
  "fmul (Finite x) c =
     (let r = round53 (x * c)
      in if dbl_max < r then PosInf else if r < - dbl_max then NegInf else Finite r)"
| "fmul PosInf c = PosInf"
| "fmul NegInf c = NegInf"

fun py_round :: "pyfloat \<Rightarrow> error + int" where
  \<comment> \<open>\<open>round(x)\<close> without \<open>ndigits\<close>: the nearest int, ties to even\<close>
  "py_round (Finite x) = Inr (round_half_even x)"
| "py_round PosInf = Inl OverflowError"
| "py_round NegInf = Inl OverflowError"

fun str_nat :: "nat \<Rightarrow> string" where
  "str_nat n =
     (if n < 10 then [''0123456789'' ! n]
      else str_nat (n div 10) @ [''0123456789'' ! (n mod 10)])"

definition str_int :: "int \<Rightarrow> string" where
  "str_int i = (if i < 0 then ''-'' @ str_nat (nat (- i)) else str_nat (nat i))"

fun format_0f :: "pyfloat \<Rightarrow> string" where
  \<comment> \<open>the format specification \<open>.0f\<close>; a negative value keeps its sign when it rounds to zero\<close>
  "format_0f (Finite x) = (if x < 0 then ''-'' else []) @ str_nat (nat (round_half_even \<bar>x\<bar>))"
| "format_0f PosInf = ''inf''"
| "format_0f NegInf = ''-inf''"

subsection \<open>Percentages\<close>

definition level_pct :: "int \<Rightarrow> int \<Rightarrow> error + pyfloat" where
  \<comment> \<open>\<open>(score / maximum) * 100\<close>\<close>
  "level_pct score maximum =
     (case truediv score maximum of Inl e \<Rightarrow> Inl e | Inr q \<Rightarrow> Inr (fmul q 100))"

definition html_pct :: "int \<Rightarrow> int \<Rightarrow> error + int" where
  \<comment> \<open>\<open>round((score / maximum) * 100)\<close>, the value \<open>generate_html_report\<close> displays\<close>
  "html_pct score maximum =
     (case level_pct score maximum of Inl e \<Rightarrow> Inl e | Inr x \<Rightarrow> py_round x)"

definition markdown_pct :: "int \<Rightarrow> int \<Rightarrow> error + string" where
  \<comment> \<open>\<open>{(score / maximum) * 100:.0f}\<close>, the text \<open>generate_markdown_report\<close> displays\<close>
  "markdown_pct score maximum =
     (case level_pct score maximum of Inl e \<Rightarrow> Inl e | Inr x \<Rightarrow> Inr (format_0f x))"

subsection \<open>The Markdown report\<close>

definition and_then :: "error + 'a \<Rightarrow> ('a \<Rightarrow> error + 'b) \<Rightarrow> error + 'b" where
  \<comment> \<open>sequencing: an exception raised by the first computation ends the whole one\<close>
  "and_then r f = (case r of Inl e \<Rightarrow> Inl e | Inr v \<Rightarrow> f v)"

definition markdown_head :: "report_data \<Rightarrow> string" where
  "markdown_head d =
     ''# Cloud Native Maturity Assessment Report\<newline>\<newline>''
     @ ''**Project**: Gunj Operator  \<newline>''
     @ ''**Generated**: '' @ timestamp d @ ''  \<newline>''
     @ ''**Maturity Level**: '' @ maturityLevel d @ ''  \<newline>\<newline>''
     @ ''## Executive Summary\<newline>\<newline>''
     @ ''The Gunj Operator project has achieved a maturity score of **''
     @ str_int (total (scores d)) @ ''/115** ('' @ str_int (percentage (scores d)) @ ''%), \<newline>''
     @ ''placing it at **'' @ maturityLevel d @ ''**.\<newline>\<newline>''
     @ ''## Score Breakdown\<newline>\<newline>''
     @ ''| Level | Description | Score | Max | Percentage |\<newline>''
     @ ''|-------|-------------|-------|-----|------------|\<newline>''"

definition level_row :: "string \<Rightarrow> int \<Rightarrow> string \<Rightarrow> string \<Rightarrow> string" where
  \<comment> \<open>one row of the score table; \<open>label\<close> is the row's number and description\<close>
  "level_row label score maximum pct =
     ''| '' @ label @ '' | '' @ str_int score @ '' | '' @ maximum @ '' | '' @ pct @ ''% |\<newline>''"

definition total_row :: "scores \<Rightarrow> string" where
  "total_row s =
     ''| **Total** | | **'' @ str_int (total s) @ ''** | **115** | **''
     @ str_int (percentage s) @ ''%** |\<newline>''"

definition level_rows :: "scores \<Rightarrow> error + string list" where
  \<comment> \<open>the five level rows; the percentages are evaluated in the order of the rows\<close>
  "level_rows s =
     and_then (markdown_pct (level1 s) 20) (\<lambda>p1.
     and_then (markdown_pct (level2 s) 35) (\<lambda>p2.
     and_then (markdown_pct (level3 s) 25) (\<lambda>p3.
     and_then (markdown_pct (level4 s) 15) (\<lambda>p4.
     and_then (markdown_pct (level5 s) 20) (\<lambda>p5.
       Inr [level_row ''1 | Containerization'' (level1 s) ''20'' p1,
            level_row ''2 | Dynamic Orchestration'' (level2 s) ''35'' p2,
            level_row ''3 | Microservices Oriented'' (level3 s) ''25'' p3,
            level_row ''4 | Cloud Native Services'' (level4 s) ''15'' p4,
            level_row ''5 | Cloud Native Operations'' (level5 s) ''20'' p5])))))"

fun numbered :: "nat \<Rightarrow> string list \<Rightarrow> string" where
  \<comment> \<open>\<open>for i, rec in enumerate(recommendations, 1): markdown += f"{i}. {rec}\n"\<close>\<close>
  "numbered i [] = []"
| "numbered i (r # rs) = str_nat i @ ''. '' @ r @ ''\<newline>'' @ numbered (Suc i) rs"

definition markdown_tail :: string where
  "markdown_tail =
     ''\<newline>## Next Steps\<newline>\<newline>''
     @ ''1. Address the recommendations above in priority order\<newline>''
     @ ''2. Re-run the assessment after implementing changes\<newline>''
     @ ''3. Track progress over time using the maturity dashboard\<newline>''
     @ ''4. Share results with stakeholders and team members\<newline>\<newline>''
     @ ''---\<newline>\<newline>''
     @ ''*This report was automatically generated by the Cloud Native Maturity Assessment tool.*\<newline>''"

definition generate_markdown_report :: "report_data \<Rightarrow> error + string" where
  "generate_markdown_report d =
     (let recommendations = generate_recommendations (scores d)
      in and_then (level_rows (scores d)) (\<lambda>rows.
           Inr (markdown_head d @ concat rows @ total_row (scores d)
                @ ''\<newline>## Recommendations\<newline>\<newline>''
                @ numbered 1 recommendations @ markdown_tail)))"

subsection \<open>The HTML report\<close>

text \<open>
  \<open>generate_html_report\<close> fills a fixed template with \<open>str.format\<close>. A template is a list of
  literal pieces and replacement fields, as \<open>str.format\<close> reads it from left to right; a
  field with no argument of its name raises \<open>KeyError\<close>. The functions take the template as
  a parameter.
\<close>

datatype piece = Lit string | Field string

fun format_template :: "piece list \<Rightarrow> (string \<times> string) list \<Rightarrow> error + string" where
  "format_template [] args = Inr []"
| "format_template (Lit t # ps) args = and_then (format_template ps args) (\<lambda>rest. Inr (t @ rest))"
| "format_template (Field k # ps) args =
     (case map_of args k of
        None \<Rightarrow> Inl (KeyError k)
      | Some v \<Rightarrow> and_then (format_template ps args) (\<lambda>rest. Inr (v @ rest)))"

fun join_lines :: "string list \<Rightarrow> string" where
  \<comment> \<open>\<open>'\n'.join(xs)\<close>\<close>
  "join_lines [] = []"
| "join_lines [x] = x"
| "join_lines (x # y # ys) = x @ ''\<newline>'' @ join_lines (y # ys)"

definition html_fields :: "report_data \<Rightarrow> error + (string \<times> string) list" where
  \<comment> \<open>the keyword arguments of \<open>html_template.format\<close>: the five quotients first, then the
      recommendations, then each rounding where the argument list has it\<close>
  "html_fields d =
     (let s = scores d in
      and_then (level_pct (level1 s) 20) (\<lambda>level1_pct.
      and_then (level_pct (level2 s) 35) (\<lambda>level2_pct.
      and_then (level_pct (level3 s) 25) (\<lambda>level3_pct.
      and_then (level_pct (level4 s) 15) (\<lambda>level4_pct.
      and_then (level_pct (level5 s) 20) (\<lambda>level5_pct.
      let recommendations = generate_recommendations s;
          recommendations_html = join_lines (map (\<lambda>r. ''<li>'' @ r @ ''</li>'') recommendations)
      in
      and_then (py_round level1_pct) (\<lambda>r1.
      and_then (py_round level2_pct) (\<lambda>r2.
      and_then (py_round level3_pct) (\<lambda>r3.
      and_then (py_round level4_pct) (\<lambda>r4.
      and_then (py_round level5_pct) (\<lambda>r5.
        Inr [(''timestamp'', timestamp d),
             (''maturity_level'', maturityLevel d),
             (''percentage'', str_int (percentage s)),
             (''total_score'', str_int (total s)),
             (''level1_score'', str_int (level1 s)),
             (''level2_score'', str_int (level2 s)),
             (''level3_score'', str_int (level3 s)),
             (''level4_score'', str_int (level4 s)),
             (''level5_score'', str_int (level5 s)),
             (''level1_pct'', str_int r1),
             (''level2_pct'', str_int r2),
             (''level3_pct'', str_int r3),
             (''level4_pct'', str_int r4),
             (''level5_pct'', str_int r5),
             (''recommendations'', recommendations_html)])))))))))))"

definition generate_html_report :: "piece list \<Rightarrow> report_data \<Rightarrow> error + string" where
  "generate_html_report html_template d =
     and_then (html_fields d) (format_template html_template)"

subsection \<open>The data loader and the whole run\<close>

text \<open>
  The file system is a map from paths to contents; \<open>os.path.exists\<close> is membership in its
  domain. \<open>json_load\<close> is the library's parser, a parameter: on text that is not JSON it
  raises \<open>JSONDecodeError\<close>. \<open>now\<close> is \<open>datetime.datetime.utcnow().isoformat()\<close>, the reading
  of the clock.
\<close>

type_synonym fs = "string \<rightharpoonup> string"

definition default_data :: "string \<Rightarrow> report_data" where
  "default_data now =
     \<lparr>timestamp = now @ ''Z'',
      project = ''gunj-operator'',
      scores = \<lparr>total = 0, percentage = 0, level1 = 0, level2 = 0, level3 = 0, level4 = 0,
                level5 = 0\<rparr>,
      maturityLevel = ''0 - Traditional''\<rparr>"

definition load_assessment_data ::
  "(string \<Rightarrow> error + report_data) \<Rightarrow> string \<Rightarrow> fs \<Rightarrow> string \<Rightarrow> error + report_data" where
  "load_assessment_data json_load now files assessment_file =
     (case files assessment_file of
        Some content \<Rightarrow> json_load content
      | None \<Rightarrow> Inr (default_data now))"

definition save_reports :: "piece list \<Rightarrow> report_data \<Rightarrow> fs \<Rightarrow> error + fs" where
  \<comment> \<open>each report is rendered, then written, the HTML one first\<close>
  "save_reports html_template d files =
     and_then (generate_html_report html_template d) (\<lambda>html_content.
     and_then (generate_markdown_report d) (\<lambda>markdown_content.
       Inr (files(''maturity-report.html'' \<mapsto> html_content,
                  ''maturity-report.md'' \<mapsto> markdown_content))))"

definition maturity_main ::
  "(string \<Rightarrow> error + report_data) \<Rightarrow> piece list \<Rightarrow> string \<Rightarrow> fs \<Rightarrow> error + fs" where
  \<comment> \<open>\<open>MaturityReportGenerator().save_reports()\<close>\<close>
  "maturity_main json_load html_template now files =
     and_then (load_assessment_data json_load now files ''maturity-assessment-report.json'')
       (\<lambda>d. save_reports html_template d files)"

section \<open>Security dashboard generator (scripts/generate-security-dashboard.py)\<close>

subsection \<open>Data\<close>

text \<open>A \<open>datetime.datetime\<close> value. Its rendering by \<open>strftime\<close> is the platform's and is a
  parameter of the function that calls it.\<close>

record datetime =
  year :: nat
  month :: nat
  day :: nat
  hour :: nat
  minute :: nat
  second :: nat
  microsecond :: nat

record summary =
  total_score :: int
  max_score :: int
  summary_percentage :: "int option"  \<comment> \<open>the key \<open>percentage\<close>, read with \<open>.get\<close>\<close>

record assessment =
  summary :: "summary option"  \<comment> \<open>read with \<open>.get('summary', {})\<close>\<close>

record vulnerabilities =
  critical :: int
  high :: int
  medium :: int
  low :: int

record scanning =
  last_scan :: string
  containers_scanned :: int
  dependencies_scanned :: int
  code_coverage :: int

record metrics =
  vulnerabilities :: vulnerabilities
  scanning :: scanning

record standard =
  score :: int
  controls_passed :: int
  controls_total :: int

record compliance =
  standards :: "(string \<times> standard) list"
  overall_compliance :: pyfloat

definition pad :: "nat \<Rightarrow> nat \<Rightarrow> string" where
  \<comment> \<open>\<open>n\<close> in decimal, zero-padded to \<open>w\<close> digits\<close>
  "pad w n = replicate (w - length (str_nat n)) (CHR ''0'') @ str_nat n"

definition isoformat :: "datetime \<Rightarrow> string" where
  \<comment> \<open>\<open>YYYY-MM-DDTHH:MM:SS\<close>, followed by \<open>.ffffff\<close> when the microseconds are not 0\<close>
  "isoformat t =
     pad 4 (year t) @ ''-'' @ pad 2 (month t) @ ''-'' @ pad 2 (day t) @ ''T''
     @ pad 2 (hour t) @ '':'' @ pad 2 (minute t) @ '':'' @ pad 2 (second t)
     @ (if microsecond t = 0 then [] else ''.'' @ pad 6 (microsecond t))"

text \<open>\<open>self.results\<close>: each of its three keys is absent until the step that stores it has run.\<close>

record results =
  results_assessment :: "assessment option"
  results_vulnerabilities :: "metrics option"
  results_compliance :: "compliance option"

text \<open>The generator object, and the lines printed so far.\<close>

record generator =
  generator_timestamp :: datetime
  results :: results
  stdout :: "string list"

definition init :: "datetime \<Rightarrow> generator" where
  \<comment> \<open>\<open>__init__\<close>; the argument is \<open>datetime.datetime.utcnow()\<close>\<close>
  "init now =
     \<lparr>generator_timestamp = now,
      results = \<lparr>results_assessment = None, results_vulnerabilities = None,
                 results_compliance = None\<rparr>,
      stdout = []\<rparr>"

definition print :: "string \<Rightarrow> generator \<Rightarrow> generator" where
  "print line g = g\<lparr>stdout := stdout g @ [line]\<rparr>"

subsection \<open>Running the assessment\<close>

text \<open>
  What \<open>subprocess.run\<close> does: it raises (the script cannot be started, the user
  interrupts), or the script runs to its end and \<open>run\<close> returns its exit status. No
  \<open>check=True\<close> is passed, so an exit status other than 0 raises nothing.
\<close>

datatype proc_outcome = Raised error | Completed int

fun str_error :: "error \<Rightarrow> string" where
  "str_error ZeroDivisionError = ''division by zero''"
| "str_error OverflowError = ''cannot convert float infinity to integer''"
| "str_error (KeyError k) = k"
| "str_error (JSONDecodeError m) = m"
| "str_error (OSError m) = m"
| "str_error KeyboardInterrupt = []"

fun is_Exception :: "error \<Rightarrow> bool" where
  \<comment> \<open>membership in the class \<open>Exception\<close>, which \<open>except Exception\<close> catches\<close>
  "is_Exception KeyboardInterrupt = False"
| "is_Exception _ = True"

definition default_assessment :: assessment where
  "default_assessment =
     \<lparr>summary = Some \<lparr>total_score = 0, max_score = 100, summary_percentage = Some 0\<rparr>\<rparr>"

definition set_assessment :: "assessment \<Rightarrow> generator \<Rightarrow> generator" where
  "set_assessment a g = g\<lparr>results := (results g)\<lparr>results_assessment := Some a\<rparr>\<rparr>"

definition assessment_try ::
  "(string \<Rightarrow> error + assessment) \<Rightarrow> proc_outcome \<Rightarrow> fs \<Rightarrow> generator \<Rightarrow> error + generator" where
  \<comment> \<open>the body of the \<open>try\<close>; \<open>files\<close> is the file system the subprocess leaves\<close>
  "assessment_try json_load outcome files g =
     (case outcome of
        Raised e \<Rightarrow> Inl e
      | Completed returncode \<Rightarrow>
          (case files ''security-assessment-report.json'' of
             None \<Rightarrow> Inr g
           | Some content \<Rightarrow> and_then (json_load content) (\<lambda>a. Inr (set_assessment a g))))"

definition run_security_assessment ::
  "(string \<Rightarrow> error + assessment) \<Rightarrow> proc_outcome \<Rightarrow> fs \<Rightarrow> generator \<Rightarrow> error + generator" where
  "run_security_assessment json_load outcome files g =
     (let g1 = print ''Running security assessment...'' g
      in case assessment_try json_load outcome files g1 of
           Inr g2 \<Rightarrow> Inr g2
         | Inl e \<Rightarrow>
             if is_Exception e
             then Inr (set_assessment default_assessment
                         (print (''Error running assessment: '' @ str_error e) g1))
             else Inl e)"

subsection \<open>Counting vulnerabilities\<close>

text \<open>
  The Trivy document: each of the keys \<open>Results\<close>, \<open>Vulnerabilities\<close> and \<open>Severity\<close> is
  read with \<open>.get\<close> and may be absent.
\<close>

record vuln =
  Severity :: "string option"

record scan_result =
  Vulnerabilities :: "vuln list option"

record trivy =
  Results :: "scan_result list option"

definition lower_char :: "char \<Rightarrow> char" where
  \<comment> \<open>on ASCII text, which the tier names are\<close>
  "lower_char c =
     (case map_of (zip ''ABCDEFGHIJKLMNOPQRSTUVWXYZ'' ''abcdefghijklmnopqrstuvwxyz'') c of
        Some l \<Rightarrow> l
      | None \<Rightarrow> c)"

definition lower :: "string \<Rightarrow> string" where
  "lower s = map lower_char s"

definition count_severity :: "string \<Rightarrow> vulnerabilities \<Rightarrow> vulnerabilities" where
  \<comment> \<open>\<open>if severity in metrics['vulnerabilities']: metrics['vulnerabilities'][severity] += 1\<close>\<close>
  "count_severity severity v =
     (if severity = ''critical'' then v\<lparr>critical := critical v + 1\<rparr>
      else if severity = ''high'' then v\<lparr>high := high v + 1\<rparr>
      else if severity = ''medium'' then v\<lparr>medium := medium v + 1\<rparr>
      else if severity = ''low'' then v\<lparr>low := low v + 1\<rparr>
      else v)"

definition count_vuln :: "vulnerabilities \<Rightarrow> vuln \<Rightarrow> vulnerabilities" where
  "count_vuln v x =
     count_severity (lower (case Severity x of None \<Rightarrow> ''LOW'' | Some s \<Rightarrow> s)) v"

definition count_result :: "vulnerabilities \<Rightarrow> scan_result \<Rightarrow> vulnerabilities" where
  "count_result v r =
     foldl count_vuln v (case Vulnerabilities r of None \<Rightarrow> [] | Some xs \<Rightarrow> xs)"

definition count_trivy :: "trivy \<Rightarrow> vulnerabilities \<Rightarrow> vulnerabilities" where
  "count_trivy trivy_data v =
     foldl count_result v (case Results trivy_data of None \<Rightarrow> [] | Some rs \<Rightarrow> rs)"

definition entries :: "trivy \<Rightarrow> vuln list" where
  \<comment> \<open>the vulnerability entries of a Trivy document, in the order the two loops visit them\<close>
  "entries t =
     concat (map (\<lambda>r. case Vulnerabilities r of None \<Rightarrow> [] | Some xs \<Rightarrow> xs)
               (case Results t of None \<Rightarrow> [] | Some rs \<Rightarrow> rs))"

definition initial_metrics :: "string \<Rightarrow> metrics" where
  "initial_metrics scan_time =
     \<lparr>vulnerabilities = \<lparr>critical = 0, high = 0, medium = 0, low = 0\<rparr>,
      scanning = \<lparr>last_scan = scan_time, containers_scanned = 0, dependencies_scanned = 0,
                  code_coverage = 0\<rparr>\<rparr>"

definition collect_vulnerability_metrics ::
  "(string \<Rightarrow> error + trivy) \<Rightarrow> fs \<Rightarrow> generator \<Rightarrow> error + metrics \<times> generator" where
  \<comment> \<open>returns the metrics and the generator with them stored; the load is in no \<open>try\<close>\<close>
  "collect_vulnerability_metrics json_load files g =
     (let metrics = initial_metrics (isoformat (generator_timestamp g))
      in and_then
           (case files ''trivy-results.json'' of
              None \<Rightarrow> Inr metrics
            | Some content \<Rightarrow>
                and_then (json_load content) (\<lambda>trivy_data.
                  Inr (metrics\<lparr>vulnerabilities := count_trivy trivy_data (vulnerabilities metrics)\<rparr>)))
           (\<lambda>m. Inr (m, g\<lparr>results := (results g)\<lparr>results_vulnerabilities := Some m\<rparr>\<rparr>)))"

subsection \<open>The compliance report\<close>

definition float_84_3 :: pyfloat where
  \<comment> \<open>the literal \<open>84.3\<close>: the double nearest to it\<close>
  "float_84_3 = Finite (round53 (843 / 10))"

definition compliance_record :: compliance where
  "compliance_record =
     \<lparr>standards =
        [(''CIS_Kubernetes'', \<lparr>score = 85, controls_passed = 95, controls_total = 112\<rparr>),
         (''NIST_CSF'', \<lparr>score = 78, controls_passed = 156, controls_total = 200\<rparr>),
         (''OWASP_API'', \<lparr>score = 90, controls_passed = 9, controls_total = 10\<rparr>)],
      overall_compliance = float_84_3\<rparr>"

definition generate_compliance_report :: "generator \<Rightarrow> compliance \<times> generator" where
  "generate_compliance_report g =
     (compliance_record, g\<lparr>results := (results g)\<lparr>results_compliance := Some compliance_record\<rparr>\<rparr>)"

subsection \<open>The dashboard\<close>

fun py_int :: "pyfloat \<Rightarrow> error + int" where
  \<comment> \<open>\<open>int(x)\<close>: truncation towards zero\<close>
  "py_int (Finite x) = Inr (if 0 \<le> x then \<lfloor>x\<rfloor> else \<lceil>x\<rceil>)"
| "py_int PosInf = Inl OverflowError"
| "py_int NegInf = Inl OverflowError"

definition dashboard_vulnerabilities :: "generator \<Rightarrow> vulnerabilities option" where
  \<comment> \<open>\<open>self.results.get('vulnerabilities', {}).get('vulnerabilities', {})\<close>; \<open>None\<close> is \<open>{}\<close>\<close>
  "dashboard_vulnerabilities g = map_option vulnerabilities (results_vulnerabilities (results g))"

definition total_vulns :: "generator \<Rightarrow> int" where
  \<comment> \<open>\<open>sum(vulnerabilities.values())\<close>\<close>
  "total_vulns g =
     (case dashboard_vulnerabilities g of
        None \<Rightarrow> 0
      | Some v \<Rightarrow> sum_list [critical v, high v, medium v, low v])"

definition security_score :: "generator \<Rightarrow> int" where
  \<comment> \<open>\<open>assessment.get('percentage', 0)\<close> on \<open>self.results.get('assessment', {}).get('summary', {})\<close>\<close>
  "security_score g =
     (case results_assessment (results g) of
        None \<Rightarrow> 0
      | Some a \<Rightarrow>
          (case summary a of
             None \<Rightarrow> 0
           | Some s \<Rightarrow> (case summary_percentage s of None \<Rightarrow> 0 | Some p \<Rightarrow> p)))"

definition compliance_score :: "generator \<Rightarrow> error + int" where
  \<comment> \<open>\<open>int(compliance.get('overall_compliance', 0))\<close>\<close>
  "compliance_score g =
     (case results_compliance (results g) of
        None \<Rightarrow> Inr 0
      | Some c \<Rightarrow> py_int (overall_compliance c))"

definition replace_underscores :: "string \<Rightarrow> string" where
  \<comment> \<open>\<open>standard.replace('_', ' ')\<close>\<close>
  "replace_underscores s = map (\<lambda>c. if c = CHR ''_'' then CHR '' '' else c) s"

definition dashboard_fields ::
  "(datetime \<Rightarrow> string) \<Rightarrow> (string \<Rightarrow> string \<Rightarrow> string \<Rightarrow> string \<Rightarrow> string) \<Rightarrow> string
     \<Rightarrow> generator \<Rightarrow> error + (string \<times> string) list" where
  \<comment> \<open>the keyword arguments of \<open>html_template.format\<close>. \<open>card_html name score passed total\<close> is the
      markup of one compliance card and \<open>recommendations_html\<close> the markup of the five fixed
      recommendations; both are literal markup of the source, taken as parameters\<close>
  "dashboard_fields strftime card_html recommendations_html g =
     (let v = dashboard_vulnerabilities g;
          compliance_cards =
            concat (map (\<lambda>(name, data). card_html (replace_underscores name) (str_int (score data))
                           (str_int (controls_passed data)) (str_int (controls_total data)))
                      (case results_compliance (results g) of None \<Rightarrow> [] | Some c \<Rightarrow> standards c))
      in and_then (compliance_score g) (\<lambda>cs.
           Inr [(''timestamp'', strftime (generator_timestamp g)),
                (''security_score'', str_int (security_score g)),
                (''compliance_score'', str_int cs),
                (''total_vulns'', str_int (total_vulns g)),
                (''critical_vulns'', str_int (case v of None \<Rightarrow> 0 | Some v \<Rightarrow> critical v)),
                (''high_vulns'', str_int (case v of None \<Rightarrow> 0 | Some v \<Rightarrow> high v)),
                (''medium_vulns'', str_int (case v of None \<Rightarrow> 0 | Some v \<Rightarrow> medium v)),
                (''low_vulns'', str_int (case v of None \<Rightarrow> 0 | Some v \<Rightarrow> low v)),
                (''compliance_cards'', compliance_cards),
                (''security_checks'',
                 ''<tr><td colspan='' @ [CHR 0x27] @ ''4'' @ [CHR 0x27] @ '' class='' @ [CHR 0x27]
                 @ ''text-center py-4'' @ [CHR 0x27]
                 @ ''>Run security assessment to see detailed results</td></tr>''),
                (''recommendations'', recommendations_html)]))"

definition generate_html_dashboard ::
  "piece list \<Rightarrow> (datetime \<Rightarrow> string) \<Rightarrow> (string \<Rightarrow> string \<Rightarrow> string \<Rightarrow> string \<Rightarrow> string)
     \<Rightarrow> string \<Rightarrow> generator \<Rightarrow> error + string" where
  "generate_html_dashboard html_template strftime card_html recommendations_html g =
     and_then (dashboard_fields strftime card_html recommendations_html g)
       (format_template html_template)"

text \<open>
  The template of the source: in its style sheet the braces are single, not doubled as in
  its script part, so \<open>str.format\<close> reads the first rule body, from the brace after
  \<open>.metric-card\<close> on, as a replacement field whose name is the text before the colon.
  \<open>head\<close> is the literal text before that brace and \<open>rest\<close> what follows the field.
\<close>

definition dashboard_template :: "string \<Rightarrow> piece list \<Rightarrow> piece list" where
  "dashboard_template head rest = Lit head # Field ''\<newline>            background'' # rest"

text \<open>
  The report template has the same single braces; its first rule body is the one of
  \<open>body\<close>.
\<close>

definition report_template :: "string \<Rightarrow> piece list \<Rightarrow> piece list" where
  "report_template head rest = Lit head # Field ''\<newline>            font-family'' # rest"

subsection \<open>Sample inputs\<close>

definition reject :: "string \<Rightarrow> string \<Rightarrow> error + 'a" where
  \<comment> \<open>how the parser answers a text that is not JSON: \<open>JSONDecodeError\<close> with its message\<close>
  "reject msg content = Inl (JSONDecodeError msg)"

definition accept :: "'a \<Rightarrow> string \<Rightarrow> error + 'a" where
  \<comment> \<open>how the parser answers a text that denotes the value \<open>v\<close>\<close>
  "accept v content = Inr v"

definition new_year :: datetime where
  "new_year =
     \<lparr>year = 2024, month = 1, day = 1, hour = 0, minute = 0, second = 0, microsecond = 0\<rparr>"

definition load_sample :: "'a \<Rightarrow> string \<Rightarrow> error + 'a" where
  \<comment> \<open>a parser on two texts: \<open>not json\<close> is rejected, any other text denotes \<open>v\<close>\<close>
  "load_sample v content =
     (if content = ''not json'' then Inl (JSONDecodeError ''Expecting value'') else Inr v)"

section \<open>Properties\<close>

lemma in_generate_recommendations:
  "r \<in> set (generate_recommendations s) \<Longrightarrow>
     r = excellent \<or> r \<in> set (level1_block s) \<or> r \<in> set (level2_block s) \<or>
     r \<in> set (level3_block s) \<or> r \<in> set (level4_block s) \<or> r \<in> set (level5_block s)"
  by (auto simp: generate_recommendations_def Let_def split: if_splits)

lemma level2_gate: "r \<in> set (generate_recommendations s) \<Longrightarrow> r \<in> level2_texts \<Longrightarrow>
    level1 s \<ge> 15 \<and> level2 s < 35"
  by (drule in_generate_recommendations)
     (auto simp: excellent_def level1_block_def level2_block_def level3_block_def
        level4_block_def level5_block_def level2_texts_def split: if_splits)

lemma level3_gate: "r \<in> set (generate_recommendations s) \<Longrightarrow> r \<in> level3_texts \<Longrightarrow>
    level2 s \<ge> 25 \<and> level3 s < 25"
  by (drule in_generate_recommendations)
     (auto simp: excellent_def level1_block_def level2_block_def level3_block_def
        level4_block_def level5_block_def level3_texts_def split: if_splits)

lemma level4_gate: "r \<in> set (generate_recommendations s) \<Longrightarrow> r \<in> level4_texts \<Longrightarrow>
    level3 s \<ge> 15 \<and> level4 s < 15"
  by (drule in_generate_recommendations)
     (auto simp: excellent_def level1_block_def level2_block_def level3_block_def
        level4_block_def level5_block_def level4_texts_def split: if_splits)

lemma level5_gate: "r \<in> set (generate_recommendations s) \<Longrightarrow> r \<in> level5_texts \<Longrightarrow>
    level4 s \<ge> 10 \<and> level5 s < 20"
  by (drule in_generate_recommendations)
     (auto simp: excellent_def level1_block_def level2_block_def level3_block_def
        level4_block_def level5_block_def level5_texts_def split: if_splits)

text \<open>
  C1. A recommendation of a later maturity level is in the list only when the prerequisite
  score on the level before is met and the level's own score is below its maximum: Level 2
  needs \<open>level1 \<ge> 15\<close>, Level 3 \<open>level2 \<ge> 25\<close>, Level 4 \<open>level3 \<ge> 15\<close>, Level 5
  \<open>level4 \<ge> 10\<close>.
\<close>

theorem later_levels_gated:
  "(r2 \<in> set (generate_recommendations s) \<and> r2 \<in> level2_texts \<longrightarrow> level1 s \<ge> 15 \<and> level2 s < 35) \<and>
   (r3 \<in> set (generate_recommendations s) \<and> r3 \<in> level3_texts \<longrightarrow> level2 s \<ge> 25 \<and> level3 s < 25) \<and>
   (r4 \<in> set (generate_recommendations s) \<and> r4 \<in> level4_texts \<longrightarrow> level3 s \<ge> 15 \<and> level4 s < 15) \<and>
   (r5 \<in> set (generate_recommendations s) \<and> r5 \<in> level5_texts \<longrightarrow> level4 s \<ge> 10 \<and> level5 s < 20)"
  using level2_gate level3_gate level4_gate level5_gate by blast

theorem later_levels_gated_witness:
  "(''Configure RBAC policies'' \<in> set (generate_recommendations
        \<lparr>total = 65, percentage = 57, level1 = 15, level2 = 25, level3 = 15, level4 = 10, level5 = 0\<rparr>)
      \<and> ''Configure RBAC policies'' \<in> level2_texts) \<and>
   (''Decompose application into microservices'' \<in> set (generate_recommendations
        \<lparr>total = 65, percentage = 57, level1 = 15, level2 = 25, level3 = 15, level4 = 10, level5 = 0\<rparr>)
      \<and> ''Decompose application into microservices'' \<in> level3_texts) \<and>
   (''Implement multi-cloud support'' \<in> set (generate_recommendations
        \<lparr>total = 65, percentage = 57, level1 = 15, level2 = 25, level3 = 15, level4 = 10, level5 = 0\<rparr>)
      \<and> ''Implement multi-cloud support'' \<in> level4_texts) \<and>
   (''Implement GitOps workflow'' \<in> set (generate_recommendations
        \<lparr>total = 65, percentage = 57, level1 = 15, level2 = 25, level3 = 15, level4 = 10, level5 = 0\<rparr>)
      \<and> ''Implement GitOps workflow'' \<in> level5_texts) \<and>
   level1 \<lparr>total = 65, percentage = 57, level1 = 15, level2 = 25, level3 = 15, level4 = 10, level5 = 0\<rparr> \<ge> 15 \<and>
   level2 \<lparr>total = 65, percentage = 57, level1 = 15, level2 = 25, level3 = 15, level4 = 10, level5 = 0\<rparr> < 35"
  using later_levels_gated [of "''Configure RBAC policies''"
      "\<lparr>total = 65, percentage = 57, level1 = 15, level2 = 25, level3 = 15, level4 = 10, level5 = 0\<rparr>"
      "''Decompose application into microservices''" "''Implement multi-cloud support''"
      "''Implement GitOps workflow''"]
  by (simp add: generate_recommendations_def level1_block_def level2_block_def level3_block_def
        level4_block_def level5_block_def level2_texts_def level3_texts_def level4_texts_def
        level5_texts_def)

lemma dbl_max_big: "1000 \<le> dbl_max"
proof -
  have "(1::rat) \<le> 2 ^ 971" by (rule one_le_power) simp
  moreover have "(1000::rat) \<le> 2 ^ 53 - 1" by simp
  ultimately have "(1000::rat) * 1 \<le> (2 ^ 53 - 1) * 2 ^ 971"
    by (intro mult_mono) simp_all
  then show ?thesis by (simp add: dbl_max_def)
qed

lemma truediv_small:
  "b \<noteq> 0 \<Longrightarrow> \<bar>round53 (of_int a / of_int b)\<bar> \<le> 1000 \<Longrightarrow>
     truediv a b = Inr (Finite (round53 (of_int a / of_int b)))"
  using dbl_max_big by (simp add: truediv_def Let_def)

lemma fmul_small:
  "\<bar>round53 (x * c)\<bar> \<le> 1000 \<Longrightarrow> fmul (Finite x) c = Finite (round53 (x * c))"
  using dbl_max_big by (auto simp: Let_def)

lemma round53_1: "round53 1 = 1" by code_simp
lemma round53_100: "round53 100 = 100" by code_simp

lemma level_pct_full: "m \<noteq> 0 \<Longrightarrow> level_pct m m = Inr (Finite 100)"
  using dbl_max_big by (simp add: level_pct_def truediv_small fmul_small round53_1 round53_100)

lemma round_half_even_of_int: "round_half_even (of_int n) = n"
  by (simp add: round_half_even_def)

lemma str_nat_100: "str_nat 100 = ''100''" by code_simp

lemma markdown_pct_full: "m \<noteq> 0 \<Longrightarrow> markdown_pct m m = Inr ''100''"
  using round_half_even_of_int [of 100]
  by (simp add: markdown_pct_def level_pct_full str_nat_100 del: str_nat.simps)

lemma html_pct_full: "m \<noteq> 0 \<Longrightarrow> html_pct m m = Inr 100"
  using round_half_even_of_int [of 100]
  by (simp add: html_pct_def level_pct_full)

lemma str_int_small:
  "str_int 20 = ''20''" "str_int 35 = ''35''" "str_int 25 = ''25''" "str_int 15 = ''15''"
  "str_int 100 = ''100''" "str_int 115 = ''115''"
  by code_simp+

lemma str_nat_1: "str_nat (Suc 0) = ''1''" by simp

text \<open>
  The Total row prints the \<open>percentage\<close> field of the record, not a value computed from
  the level scores: with the five level scores at their maximums and \<open>percentage = 0\<close> the
  row shows 0%.
\<close>

theorem total_row_not_100:
  "level_rows \<lparr>total = 115, percentage = 0, level1 = 20, level2 = 35, level3 = 25, level4 = 15,
       level5 = 20\<rparr> =
     Inr [''| 1 | Containerization | 20 | 20 | 100% |\<newline>'',
          ''| 2 | Dynamic Orchestration | 35 | 35 | 100% |\<newline>'',
          ''| 3 | Microservices Oriented | 25 | 25 | 100% |\<newline>'',
          ''| 4 | Cloud Native Services | 15 | 15 | 100% |\<newline>'',
          ''| 5 | Cloud Native Operations | 20 | 20 | 100% |\<newline>''] \<and>
   total_row \<lparr>total = 115, percentage = 0, level1 = 20, level2 = 35, level3 = 25, level4 = 15,
       level5 = 20\<rparr> = ''| **Total** | | **115** | **115** | **0%** |\<newline>''"
  by (simp add: level_rows_def and_then_def markdown_pct_full level_row_def str_int_small
        total_row_def str_int_def)

text \<open>
  C2 (amended). For a record whose five level scores equal the category maximums, the
  recommendation list is the single fallback message and each of the five level rows of the
  Markdown score table shows 100%. The Total row shows the record's own \<open>percentage\<close> field,
  which is 100% when that field is 100.
\<close>

theorem all_maximum_report:
  assumes "level1 (scores d) = 20" and "level2 (scores d) = 35" and "level3 (scores d) = 25"
    and "level4 (scores d) = 15" and "level5 (scores d) = 20"
  shows "generate_recommendations (scores d) =
           [''Excellent! Continue maintaining high standards and consider contributing to CNCF''] \<and>
         generate_markdown_report d =
           Inr (markdown_head d
                @ ''| 1 | Containerization | 20 | 20 | 100% |\<newline>''
                @ ''| 2 | Dynamic Orchestration | 35 | 35 | 100% |\<newline>''
                @ ''| 3 | Microservices Oriented | 25 | 25 | 100% |\<newline>''
                @ ''| 4 | Cloud Native Services | 15 | 15 | 100% |\<newline>''
                @ ''| 5 | Cloud Native Operations | 20 | 20 | 100% |\<newline>''
                @ total_row (scores d)
                @ ''\<newline>## Recommendations\<newline>\<newline>''
                @ ''1. Excellent! Continue maintaining high standards and consider contributing to CNCF\<newline>''
                @ markdown_tail) \<and>
         total_row (scores d) =
           ''| **Total** | | **'' @ str_int (total (scores d)) @ ''** | **115** | **''
           @ str_int (percentage (scores d)) @ ''%** |\<newline>'' \<and>
         (percentage (scores d) = 100 \<longrightarrow>
            total_row (scores d) =
              ''| **Total** | | **'' @ str_int (total (scores d))
              @ ''** | **115** | **100%** |\<newline>'')"
proof -
  have recs: "generate_recommendations (scores d) = [excellent]"
    using assms
    by (simp add: generate_recommendations_def level1_block_def level2_block_def
          level3_block_def level4_block_def level5_block_def)
  have rows: "level_rows (scores d) =
      Inr [''| 1 | Containerization | 20 | 20 | 100% |\<newline>'',
           ''| 2 | Dynamic Orchestration | 35 | 35 | 100% |\<newline>'',
           ''| 3 | Microservices Oriented | 25 | 25 | 100% |\<newline>'',
           ''| 4 | Cloud Native Services | 15 | 15 | 100% |\<newline>'',
           ''| 5 | Cloud Native Operations | 20 | 20 | 100% |\<newline>'']"
    using assms
    by (simp add: level_rows_def and_then_def markdown_pct_full level_row_def str_int_small)
  have md: "generate_markdown_report d = Inr (markdown_head d
                @ ''| 1 | Containerization | 20 | 20 | 100% |\<newline>''
                @ ''| 2 | Dynamic Orchestration | 35 | 35 | 100% |\<newline>''
                @ ''| 3 | Microservices Oriented | 25 | 25 | 100% |\<newline>''
                @ ''| 4 | Cloud Native Services | 15 | 15 | 100% |\<newline>''
                @ ''| 5 | Cloud Native Operations | 20 | 20 | 100% |\<newline>''
                @ total_row (scores d)
                @ ''\<newline>## Recommendations\<newline>\<newline>''
                @ ''1. Excellent! Continue maintaining high standards and consider contributing to CNCF\<newline>''
                @ markdown_tail)"
    by (simp add: generate_markdown_report_def recs rows and_then_def excellent_def str_nat_1
          del: str_nat.simps)
  have own: "total_row (scores d) =
           ''| **Total** | | **'' @ str_int (total (scores d)) @ ''** | **115** | **''
           @ str_int (percentage (scores d)) @ ''%** |\<newline>''"
    by (simp add: total_row_def)
  have tot: "percentage (scores d) = 100 \<longrightarrow>
            total_row (scores d) =
              ''| **Total** | | **'' @ str_int (total (scores d))
              @ ''** | **115** | **100%** |\<newline>''"
    by (simp add: total_row_def str_int_small)
  from recs have recs': "generate_recommendations (scores d) =
      [''Excellent! Continue maintaining high standards and consider contributing to CNCF'']"
    by (simp add: excellent_def)
  from recs' md own tot show ?thesis by blast
qed

theorem all_maximum_report_witness:
  "level1 (scores \<lparr>timestamp = ''2024-01-01T00:00:00Z'', project = ''gunj-operator'',
      scores = \<lparr>total = 115, percentage = 100, level1 = 20, level2 = 35, level3 = 25,
                level4 = 15, level5 = 20\<rparr>, maturityLevel = ''5 - Cloud Native''\<rparr>) = 20 \<and>
   percentage (scores \<lparr>timestamp = ''2024-01-01T00:00:00Z'', project = ''gunj-operator'',
      scores = \<lparr>total = 115, percentage = 100, level1 = 20, level2 = 35, level3 = 25,
                level4 = 15, level5 = 20\<rparr>, maturityLevel = ''5 - Cloud Native''\<rparr>) = 100 \<and>
   generate_recommendations (scores \<lparr>timestamp = ''2024-01-01T00:00:00Z'', project = ''gunj-operator'',
      scores = \<lparr>total = 115, percentage = 100, level1 = 20, level2 = 35, level3 = 25,
                level4 = 15, level5 = 20\<rparr>, maturityLevel = ''5 - Cloud Native''\<rparr>) =
     [''Excellent! Continue maintaining high standards and consider contributing to CNCF''] \<and>
   total_row (scores \<lparr>timestamp = ''2024-01-01T00:00:00Z'', project = ''gunj-operator'',
      scores = \<lparr>total = 115, percentage = 100, level1 = 20, level2 = 35, level3 = 25,
                level4 = 15, level5 = 20\<rparr>, maturityLevel = ''5 - Cloud Native''\<rparr>) =
     ''| **Total** | | **115** | **115** | **100%** |\<newline>''"
  using all_maximum_report [of "\<lparr>timestamp = ''2024-01-01T00:00:00Z'', project = ''gunj-operator'',
      scores = \<lparr>total = 115, percentage = 100, level1 = 20, level2 = 35, level3 = 25,
                level4 = 15, level5 = 20\<rparr>, maturityLevel = ''5 - Cloud Native''\<rparr>"]
  by (simp add: str_int_small)

text \<open>
  C5. When the assessment file does not exist, the loader returns the default record: every
  score 0, total 0, percentage 0, maturity level "0 - Traditional". It returns, raising nothing.
\<close>

theorem missing_file_default:
  "files assessment_file = None \<Longrightarrow>
     (\<exists>d. load_assessment_data json_load now files assessment_file = Inr d \<and>
          d = default_data now \<and>
          total (scores d) = 0 \<and> percentage (scores d) = 0 \<and> level1 (scores d) = 0 \<and>
          level2 (scores d) = 0 \<and> level3 (scores d) = 0 \<and> level4 (scores d) = 0 \<and>
          level5 (scores d) = 0 \<and> maturityLevel d = ''0 - Traditional'')"
  by (simp add: load_assessment_data_def default_data_def)

theorem missing_file_default_witness:
  "(Map.empty :: fs) ''maturity-assessment-report.json'' = None \<and>
   load_assessment_data (reject ''Expecting value'') ''2024-01-01T00:00:00'' Map.empty
       ''maturity-assessment-report.json'' =
     Inr \<lparr>timestamp = ''2024-01-01T00:00:00Z'', project = ''gunj-operator'',
          scores = \<lparr>total = 0, percentage = 0, level1 = 0, level2 = 0, level3 = 0, level4 = 0,
                    level5 = 0\<rparr>,
          maturityLevel = ''0 - Traditional''\<rparr>"
  using missing_file_default [of Map.empty "''maturity-assessment-report.json''"
      "reject ''Expecting value''" "''2024-01-01T00:00:00''"]
  by (simp add: default_data_def)

lemma float_84_3_value: "float_84_3 = Finite (5932085134177075 / 70368744177664)"
  unfolding float_84_3_def by code_simp

lemma py_int_84_3: "py_int float_84_3 = Inr 84"
  unfolding float_84_3_value by code_simp

lemma str_int_84: "str_int 84 = ''84''" by code_simp

lemma dashboard_fields_compliance:
  "compliance_score g = Inr cs \<Longrightarrow>
     \<exists>fields. dashboard_fields strftime card_html recommendations_html g = Inr fields \<and>
       map_of fields ''compliance_score'' = Some (str_int cs)"
  by (simp add: dashboard_fields_def Let_def and_then_def)

text \<open>
  \<open>generate_compliance_report\<close> returns the same record whatever the generator holds:
  CIS_Kubernetes 85 with 95/112 controls, NIST_CSF 78 with 156/200, OWASP_API 90 with 9/10,
  overall compliance 84.3; the compliance score passed to the template is then 84.
\<close>

lemma compliance_constant:
  "fst (generate_compliance_report g) = compliance_record \<and>
   map_of (standards compliance_record) ''CIS_Kubernetes'' =
     Some \<lparr>score = 85, controls_passed = 95, controls_total = 112\<rparr> \<and>
   map_of (standards compliance_record) ''NIST_CSF'' =
     Some \<lparr>score = 78, controls_passed = 156, controls_total = 200\<rparr> \<and>
   map_of (standards compliance_record) ''OWASP_API'' =
     Some \<lparr>score = 90, controls_passed = 9, controls_total = 10\<rparr> \<and>
   overall_compliance compliance_record = float_84_3 \<and>
   compliance_score (snd (generate_compliance_report g)) = Inr 84 \<and>
   (\<exists>fields. dashboard_fields strftime card_html recommendations_html
        (snd (generate_compliance_report g)) = Inr fields \<and>
      map_of fields ''compliance_score'' = Some ''84'')"
proof -
  let ?g = "snd (generate_compliance_report g)"
  have cs: "compliance_score ?g = Inr 84"
    by (simp add: generate_compliance_report_def compliance_score_def compliance_record_def
          py_int_84_3)
  have "\<exists>fields. dashboard_fields strftime card_html recommendations_html ?g = Inr fields \<and>
      map_of fields ''compliance_score'' = Some ''84''"
    using dashboard_fields_compliance [OF cs] by (simp add: str_int_84)
  then show ?thesis
    using cs by (simp add: generate_compliance_report_def compliance_record_def)
qed

lemma dashboard_fields_keys:
  "dashboard_fields strftime card_html recommendations_html g = Inr kw \<Longrightarrow>
     map fst kw =
       [''timestamp'', ''security_score'', ''compliance_score'', ''total_vulns'',
        ''critical_vulns'', ''high_vulns'', ''medium_vulns'', ''low_vulns'', ''compliance_cards'',
        ''security_checks'', ''recommendations'']"
  by (auto simp: dashboard_fields_def Let_def and_then_def split: sum.splits)

text \<open>
  C9. After \<open>generate_compliance_report\<close> the compliance score is 84 whatever the generator
  holds, but the dashboard is not rendered: \<open>format\<close> comes to the style sheet's first brace
  before any field of its own and raises \<open>KeyError\<close>.
\<close>

theorem dashboard_never_renders:
  "fst (generate_compliance_report g) = compliance_record \<and>
   compliance_score (snd (generate_compliance_report g)) = Inr 84 \<and>
   generate_html_dashboard (dashboard_template head rest) strftime card_html recommendations_html
       (snd (generate_compliance_report g)) =
     Inl (KeyError ''\<newline>            background'')"
proof -
  let ?g = "snd (generate_compliance_report g)"
  have cs: "compliance_score ?g = Inr 84"
    by (simp add: generate_compliance_report_def compliance_score_def compliance_record_def
          py_int_84_3)
  from dashboard_fields_compliance [OF cs] obtain kw
    where f: "dashboard_fields strftime card_html recommendations_html ?g = Inr kw"
    by blast
  have "''\<newline>            background'' \<notin> set (map fst kw)"
    unfolding dashboard_fields_keys [OF f] by simp
  then have "map_of kw ''\<newline>            background'' = None"
    by (simp add: map_of_eq_None_iff)
  with f have "generate_html_dashboard (dashboard_template head rest) strftime card_html
      recommendations_html ?g = Inl (KeyError ''\<newline>            background'')"
    by (simp add: generate_html_dashboard_def dashboard_template_def and_then_def)
  with cs show ?thesis by (simp add: generate_compliance_report_def)
qed

lemma foldl_count_result:
  "foldl count_result v rs =
     foldl count_vuln v (concat (map (\<lambda>r. case Vulnerabilities r of None \<Rightarrow> [] | Some xs \<Rightarrow> xs) rs))"
  by (induction rs arbitrary: v) (simp_all add: count_result_def)

lemma count_trivy_entries: "count_trivy t v = foldl count_vuln v (entries t)"
  by (simp add: count_trivy_def entries_def foldl_count_result)

lemma lower_CRITICAL: "lower ''CRITICAL'' = ''critical''"
  by (simp add: lower_def lower_char_def)

lemma lower_LOW: "lower ''LOW'' = ''low''"
  by (simp add: lower_def lower_char_def)

lemma lower_UNKNOWN: "lower ''UNKNOWN'' = ''unknown''"
  by (simp add: lower_def lower_char_def)

lemma total_vulns_stored:
  "total_vulns (g\<lparr>results := (results g)\<lparr>results_vulnerabilities := Some m\<rparr>\<rparr>) =
     critical (vulnerabilities m) + high (vulnerabilities m) + medium (vulnerabilities m)
     + low (vulnerabilities m)"
  by (simp add: total_vulns_def dashboard_vulnerabilities_def)

lemma collect_total:
  "collect_vulnerability_metrics json_load files g = Inr (m, g') \<Longrightarrow>
     total_vulns g' = critical (vulnerabilities m) + high (vulnerabilities m)
       + medium (vulnerabilities m) + low (vulnerabilities m)"
  by (auto simp: collect_vulnerability_metrics_def and_then_def Let_def total_vulns_stored
        split: option.splits sum.splits)

lemma collect_loaded:
  "files ''trivy-results.json'' = Some content \<Longrightarrow> json_load content = Inr t \<Longrightarrow>
     \<exists>m g'. collect_vulnerability_metrics json_load files g = Inr (m, g') \<and>
       vulnerabilities m =
         foldl count_vuln \<lparr>critical = 0, high = 0, medium = 0, low = 0\<rparr> (entries t)"
  by (simp add: collect_vulnerability_metrics_def and_then_def Let_def count_trivy_entries
        initial_metrics_def)

text \<open>
  C4. A Trivy document whose entries are one with Severity "CRITICAL" and one with Severity
  "LOW" gives critical = 1, high = 0, medium = 0, low = 1; the dashboard's total is the sum
  of the four tiers, here 2.
\<close>

theorem trivy_critical_and_low:
  assumes "files ''trivy-results.json'' = Some content" and "json_load content = Inr t"
    and "entries t = [\<lparr>Severity = Some ''CRITICAL''\<rparr>, \<lparr>Severity = Some ''LOW''\<rparr>] \<or>
         entries t = [\<lparr>Severity = Some ''LOW''\<rparr>, \<lparr>Severity = Some ''CRITICAL''\<rparr>]"
  shows "\<exists>m g'. collect_vulnerability_metrics json_load files g = Inr (m, g') \<and>
           vulnerabilities m = \<lparr>critical = 1, high = 0, medium = 0, low = 1\<rparr> \<and>
           total_vulns g' = critical (vulnerabilities m) + high (vulnerabilities m)
             + medium (vulnerabilities m) + low (vulnerabilities m) \<and>
           total_vulns g' = 2 \<and>
           total_vulns (snd (generate_compliance_report g')) = 2"
proof -
  from collect_loaded [of files content json_load t g] assms(1,2) obtain m g'
    where c: "collect_vulnerability_metrics json_load files g = Inr (m, g')"
      and v: "vulnerabilities m =
         foldl count_vuln \<lparr>critical = 0, high = 0, medium = 0, low = 0\<rparr> (entries t)"
    by blast
  from v assms(3) have v': "vulnerabilities m = \<lparr>critical = 1, high = 0, medium = 0, low = 1\<rparr>"
    by (auto simp: count_vuln_def count_severity_def lower_CRITICAL lower_LOW)
  from collect_total [OF c] v' have t: "total_vulns g' = 2" by simp
  have "total_vulns (snd (generate_compliance_report g')) = total_vulns g'"
    by (simp add: generate_compliance_report_def total_vulns_def dashboard_vulnerabilities_def)
  with c v' t collect_total [OF c] show ?thesis by auto
qed

theorem trivy_critical_and_low_witness:
  "[''trivy-results.json'' \<mapsto> ''{}''] ''trivy-results.json'' = Some ''{}'' \<and>
   entries \<lparr>Results = Some [\<lparr>Vulnerabilities =
       Some [\<lparr>Severity = Some ''CRITICAL''\<rparr>, \<lparr>Severity = Some ''LOW''\<rparr>]\<rparr>]\<rparr> =
     [\<lparr>Severity = Some ''CRITICAL''\<rparr>, \<lparr>Severity = Some ''LOW''\<rparr>] \<and>
   (\<exists>m g'. collect_vulnerability_metrics
        (accept \<lparr>Results = Some [\<lparr>Vulnerabilities =
           Some [\<lparr>Severity = Some ''CRITICAL''\<rparr>, \<lparr>Severity = Some ''LOW''\<rparr>]\<rparr>]\<rparr>)
        [''trivy-results.json'' \<mapsto> ''{}''] (init new_year) = Inr (m, g') \<and>
      vulnerabilities m = \<lparr>critical = 1, high = 0, medium = 0, low = 1\<rparr> \<and>
      total_vulns g' = 2)"
proof -
  let ?files = "[''trivy-results.json'' \<mapsto> ''{}'']"
  let ?t = "\<lparr>Results = Some [\<lparr>Vulnerabilities =
       Some [\<lparr>Severity = Some ''CRITICAL''\<rparr>, \<lparr>Severity = Some ''LOW''\<rparr>]\<rparr>]\<rparr>"
  have a: "?files ''trivy-results.json'' = Some ''{}''" by simp
  have b: "accept ?t ''{}'' = Inr ?t" by (simp add: accept_def)
  have c: "entries ?t = [\<lparr>Severity = Some ''CRITICAL''\<rparr>, \<lparr>Severity = Some ''LOW''\<rparr>]"
    by (simp add: entries_def)
  from c have c': "entries ?t = [\<lparr>Severity = Some ''CRITICAL''\<rparr>, \<lparr>Severity = Some ''LOW''\<rparr>] \<or>
      entries ?t = [\<lparr>Severity = Some ''LOW''\<rparr>, \<lparr>Severity = Some ''CRITICAL''\<rparr>]"
    by (rule disjI1)
  from trivy_critical_and_low [of ?files "''{}''" "accept ?t" ?t, OF a b c'] a c
  show ?thesis by blast
qed

text \<open>
  C10. An entry with no Severity field is counted in the low tier; an entry whose lowercased
  Severity is none of critical, high, medium, low is counted in no tier, so the sum of the
  tiers can be less than the number of entries: it is 0 for a document with the one entry
  "UNKNOWN".
\<close>

theorem severity_default_and_unknown:
  "(Severity x = None \<longrightarrow> count_vuln v x = v\<lparr>low := low v + 1\<rparr>) \<and>
   (Severity x = Some s \<and> lower s \<notin> {''critical'', ''high'', ''medium'', ''low''} \<longrightarrow>
      count_vuln v x = v) \<and>
   (let t = \<lparr>Results = Some [\<lparr>Vulnerabilities = Some [\<lparr>Severity = Some ''UNKNOWN''\<rparr>]\<rparr>]\<rparr>;
        c = count_trivy t \<lparr>critical = 0, high = 0, medium = 0, low = 0\<rparr>
    in critical c + high c + medium c + low c < int (length (entries t)))"
  by (simp add: count_vuln_def lower_LOW lower_UNKNOWN count_severity_def count_trivy_entries
        entries_def Let_def)

theorem severity_default_and_unknown_witness:
  "Severity \<lparr>Severity = None\<rparr> = None \<and>
   count_vuln \<lparr>critical = 0, high = 0, medium = 0, low = 0\<rparr> \<lparr>Severity = None\<rparr> =
     \<lparr>critical = 0, high = 0, medium = 0, low = 1\<rparr> \<and>
   Severity \<lparr>Severity = Some ''UNKNOWN''\<rparr> = Some ''UNKNOWN'' \<and>
   lower ''UNKNOWN'' \<notin> {''critical'', ''high'', ''medium'', ''low''} \<and>
   count_vuln \<lparr>critical = 0, high = 0, medium = 0, low = 0\<rparr> \<lparr>Severity = Some ''UNKNOWN''\<rparr> =
     \<lparr>critical = 0, high = 0, medium = 0, low = 0\<rparr>"
  using severity_default_and_unknown [of "\<lparr>Severity = None\<rparr>"
          "\<lparr>critical = 0, high = 0, medium = 0, low = 0\<rparr>" "''UNKNOWN''"]
        severity_default_and_unknown [of "\<lparr>Severity = Some ''UNKNOWN''\<rparr>"
          "\<lparr>critical = 0, high = 0, medium = 0, low = 0\<rparr>" "''UNKNOWN''"]
  by (simp add: lower_UNKNOWN)

text \<open>
  The report file of the security assessment is loaded inside the \<open>try\<close> block of
  \<open>run_security_assessment\<close>: when it holds no JSON, the parse error is caught and the default
  record stored. Here the script exits with status 0 and leaves a report that is not JSON.
\<close>

theorem malformed_assessment_report_caught:
  "run_security_assessment (reject ''Expecting value: line 1 column 1 (char 0)'')
       (Completed 0) [''security-assessment-report.json'' \<mapsto> ''not json''] (init new_year)
   = Inr \<lparr>generator_timestamp = new_year,
          results = \<lparr>results_assessment = Some default_assessment,
                     results_vulnerabilities = None, results_compliance = None\<rparr>,
          stdout = [''Running security assessment...'',
                    ''Error running assessment: Expecting value: line 1 column 1 (char 0)'']\<rparr>"
  by (simp add: run_security_assessment_def assessment_try_def and_then_def print_def
        set_assessment_def init_def reject_def)

text \<open>
  C6 (amended). A file that exists and holds no JSON makes the load fail with the parse
  error, which reaches the caller, in the maturity loader (and so in the whole run of the
  maturity script) and in the Trivy load of \<open>collect_vulnerability_metrics\<close>. In
  \<open>run_security_assessment\<close> the parse error is caught, printed, and the default assessment
  is stored.
\<close>

theorem malformed_json_by_path:
  "(files assessment_file = Some content \<and> json_load content = Inl (JSONDecodeError msg) \<longrightarrow>
      load_assessment_data json_load now files assessment_file = Inl (JSONDecodeError msg)) \<and>
   (files ''maturity-assessment-report.json'' = Some content \<and>
    json_load content = Inl (JSONDecodeError msg) \<longrightarrow>
      maturity_main json_load html_template now files = Inl (JSONDecodeError msg)) \<and>
   (files ''trivy-results.json'' = Some content_t \<and>
    json_load_t content_t = Inl (JSONDecodeError msg) \<longrightarrow>
      collect_vulnerability_metrics json_load_t files g = Inl (JSONDecodeError msg)) \<and>
   (files ''security-assessment-report.json'' = Some content_a \<and>
    json_load_a content_a = Inl (JSONDecodeError msg) \<longrightarrow>
      run_security_assessment json_load_a (Completed returncode) files g =
        Inr (set_assessment default_assessment
               (print (''Error running assessment: '' @ msg)
                  (print ''Running security assessment...'' g))))"
  by (simp add: load_assessment_data_def maturity_main_def and_then_def
        collect_vulnerability_metrics_def Let_def run_security_assessment_def assessment_try_def)

theorem malformed_json_by_path_witness:
  "[''maturity-assessment-report.json'' \<mapsto> ''not json'', ''trivy-results.json'' \<mapsto> ''not json'',
    ''security-assessment-report.json'' \<mapsto> ''not json''] ''maturity-assessment-report.json''
     = Some ''not json'' \<and>
   (reject ''Expecting value'' ''not json'' :: error + report_data)
     = Inl (JSONDecodeError ''Expecting value'') \<and>
   [''maturity-assessment-report.json'' \<mapsto> ''not json'', ''trivy-results.json'' \<mapsto> ''not json'',
    ''security-assessment-report.json'' \<mapsto> ''not json''] ''trivy-results.json''
     = Some ''not json'' \<and>
   (reject ''Expecting value'' ''not json'' :: error + trivy)
     = Inl (JSONDecodeError ''Expecting value'') \<and>
   [''maturity-assessment-report.json'' \<mapsto> ''not json'', ''trivy-results.json'' \<mapsto> ''not json'',
    ''security-assessment-report.json'' \<mapsto> ''not json''] ''security-assessment-report.json''
     = Some ''not json'' \<and>
   (reject ''Expecting value'' ''not json'' :: error + assessment)
     = Inl (JSONDecodeError ''Expecting value'') \<and>
   maturity_main (reject ''Expecting value'') [] ''2024-01-01T00:00:00''
     [''maturity-assessment-report.json'' \<mapsto> ''not json'', ''trivy-results.json'' \<mapsto> ''not json'',
      ''security-assessment-report.json'' \<mapsto> ''not json'']
     = Inl (JSONDecodeError ''Expecting value'') \<and>
   collect_vulnerability_metrics (reject ''Expecting value'')
     [''maturity-assessment-report.json'' \<mapsto> ''not json'', ''trivy-results.json'' \<mapsto> ''not json'',
      ''security-assessment-report.json'' \<mapsto> ''not json''] (init new_year)
     = Inl (JSONDecodeError ''Expecting value'') \<and>
   run_security_assessment (reject ''Expecting value'') (Completed 0)
     [''maturity-assessment-report.json'' \<mapsto> ''not json'', ''trivy-results.json'' \<mapsto> ''not json'',
      ''security-assessment-report.json'' \<mapsto> ''not json''] (init new_year)
     = Inr (set_assessment default_assessment
               (print (''Error running assessment: '' @ ''Expecting value'')
                  (print ''Running security assessment...'' (init new_year))))"
proof -
  let ?files = "[''maturity-assessment-report.json'' \<mapsto> ''not json'',
      ''trivy-results.json'' \<mapsto> ''not json'', ''security-assessment-report.json'' \<mapsto> ''not json'']"
  have f1: "?files ''maturity-assessment-report.json'' = Some ''not json''" by simp
  have f2: "?files ''trivy-results.json'' = Some ''not json''" by simp
  have f3: "?files ''security-assessment-report.json'' = Some ''not json''" by simp
  have r1: "(reject ''Expecting value'' ''not json'' :: error + report_data)
     = Inl (JSONDecodeError ''Expecting value'')" by (simp add: reject_def)
  have r2: "(reject ''Expecting value'' ''not json'' :: error + trivy)
     = Inl (JSONDecodeError ''Expecting value'')" by (simp add: reject_def)
  have r3: "(reject ''Expecting value'' ''not json'' :: error + assessment)
     = Inl (JSONDecodeError ''Expecting value'')" by (simp add: reject_def)
  from malformed_json_by_path [of ?files "''maturity-assessment-report.json''" "''not json''"
      "reject ''Expecting value''" "''Expecting value''" "''2024-01-01T00:00:00''" "[]"
      "''not json''" "reject ''Expecting value''" "init new_year" "''not json''"
      "reject ''Expecting value''" 0]
    f1 f2 f3 r1 r2 r3
  show ?thesis by blast
qed

text \<open>
  A script that runs and exits with status 1, leaving no report: \<open>subprocess.run\<close> raises
  nothing, so nothing is caught or printed and no assessment is stored.
\<close>

theorem failed_script_no_default:
  "run_security_assessment (reject ''Expecting value'') (Completed 1) Map.empty (init new_year)
   = Inr \<lparr>generator_timestamp = new_year,
          results = \<lparr>results_assessment = None,
                     results_vulnerabilities = None, results_compliance = None\<rparr>,
          stdout = [''Running security assessment...'']\<rparr>"
  by (simp add: run_security_assessment_def assessment_try_def and_then_def print_def
        set_assessment_def init_def)

text \<open>
  C7 (amended). When \<open>subprocess.run\<close>, or the load of the report that follows it, raises an
  exception of class \<open>Exception\<close>, \<open>run_security_assessment\<close> catches it, prints it, stores the
  default assessment (total score 0, maximum 100, percentage 0) and returns; an exception
  outside that class is not caught. When the script runs to its end, whatever its exit
  status, nothing is raised: the report is loaded if it exists, and no assessment is stored
  if it does not.
\<close>

theorem raised_exception_defaults:
  "(is_Exception e \<longrightarrow>
      run_security_assessment json_load (Raised e) files g =
        Inr (set_assessment default_assessment
               (print (''Error running assessment: '' @ str_error e)
                  (print ''Running security assessment...'' g)))) \<and>
   (files'' ''security-assessment-report.json'' = Some content' \<and> json_load content' = Inl e'' \<and>
    is_Exception e'' \<longrightarrow>
      run_security_assessment json_load (Completed returncode) files'' g =
        Inr (set_assessment default_assessment
               (print (''Error running assessment: '' @ str_error e'')
                  (print ''Running security assessment...'' g)))) \<and>
   (\<not> is_Exception e' \<longrightarrow> run_security_assessment json_load (Raised e') files g = Inl e') \<and>
   (files ''security-assessment-report.json'' = None \<longrightarrow>
      run_security_assessment json_load (Completed returncode) files g =
        Inr (print ''Running security assessment...'' g)) \<and>
   (files' ''security-assessment-report.json'' = Some content \<and> json_load content = Inr a \<longrightarrow>
      run_security_assessment json_load (Completed returncode) files' g =
        Inr (set_assessment a (print ''Running security assessment...'' g))) \<and>
   summary default_assessment =
     Some \<lparr>total_score = 0, max_score = 100, summary_percentage = Some 0\<rparr>"
  by (simp add: run_security_assessment_def assessment_try_def and_then_def default_assessment_def)

theorem raised_exception_defaults_witness:
  "is_Exception (OSError ''No such file or directory'') \<and>
   run_security_assessment (load_sample default_assessment)
       (Raised (OSError ''No such file or directory'')) Map.empty (init new_year) =
     Inr (set_assessment default_assessment
            (print (''Error running assessment: '' @ str_error (OSError ''No such file or directory''))
               (print ''Running security assessment...'' (init new_year)))) \<and>
   [''security-assessment-report.json'' \<mapsto> ''not json''] ''security-assessment-report.json''
     = Some ''not json'' \<and>
   load_sample default_assessment ''not json'' = Inl (JSONDecodeError ''Expecting value'') \<and>
   is_Exception (JSONDecodeError ''Expecting value'') \<and>
   run_security_assessment (load_sample default_assessment) (Completed 1)
       [''security-assessment-report.json'' \<mapsto> ''not json''] (init new_year) =
     Inr (set_assessment default_assessment
            (print (''Error running assessment: '' @ str_error (JSONDecodeError ''Expecting value''))
               (print ''Running security assessment...'' (init new_year)))) \<and>
   \<not> is_Exception KeyboardInterrupt \<and>
   run_security_assessment (load_sample default_assessment) (Raised KeyboardInterrupt) Map.empty
       (init new_year) = Inl KeyboardInterrupt \<and>
   (Map.empty :: fs) ''security-assessment-report.json'' = None \<and>
   run_security_assessment (load_sample default_assessment) (Completed 1) Map.empty
       (init new_year) =
     Inr (print ''Running security assessment...'' (init new_year)) \<and>
   [''security-assessment-report.json'' \<mapsto> ''{}''] ''security-assessment-report.json'' = Some ''{}'' \<and>
   load_sample default_assessment ''{}'' = Inr default_assessment \<and>
   run_security_assessment (load_sample default_assessment) (Completed 1)
       [''security-assessment-report.json'' \<mapsto> ''{}''] (init new_year) =
     Inr (set_assessment default_assessment (print ''Running security assessment...'' (init new_year)))"
proof -
  have a: "is_Exception (OSError ''No such file or directory'')" by simp
  have a': "is_Exception (JSONDecodeError ''Expecting value'')" by simp
  have b: "\<not> is_Exception KeyboardInterrupt" by simp
  have c: "(Map.empty :: fs) ''security-assessment-report.json'' = None" by simp
  have d: "[''security-assessment-report.json'' \<mapsto> ''{}''] ''security-assessment-report.json''
      = Some ''{}''" by simp
  have d': "[''security-assessment-report.json'' \<mapsto> ''not json'']
      ''security-assessment-report.json'' = Some ''not json''" by simp
  have e: "load_sample default_assessment ''{}'' = Inr default_assessment"
    by (simp add: load_sample_def)
  have e': "load_sample default_assessment ''not json'' = Inl (JSONDecodeError ''Expecting value'')"
    by (simp add: load_sample_def)
  from raised_exception_defaults [of "OSError ''No such file or directory''"
      "load_sample default_assessment" Map.empty "init new_year"
      "[''security-assessment-report.json'' \<mapsto> ''not json'']" "''not json''"
      "JSONDecodeError ''Expecting value''" 1 KeyboardInterrupt
      "[''security-assessment-report.json'' \<mapsto> ''{}'']" "''{}''" default_assessment]
    a a' b c d d' e e'
  show ?thesis by blast
qed

text \<open>
  C8. The run of the maturity script reads the clock only for the timestamp of the default
  record. Two runs on the same files, at different times, give the same recommendation list
  and, once the timestamp field is set to the same value, the same HTML and Markdown
  documents; when the assessment file exists, the timestamp comes from the file and the two
  runs write the same files.
\<close>

theorem reports_deterministic:
  "and_then (load_assessment_data json_load now1 files assessment_file)
       (\<lambda>d. Inr (generate_recommendations (scores d),
                 generate_html_report html_template (d\<lparr>timestamp := t\<rparr>),
                 generate_markdown_report (d\<lparr>timestamp := t\<rparr>))) =
   and_then (load_assessment_data json_load now2 files assessment_file)
       (\<lambda>d. Inr (generate_recommendations (scores d),
                 generate_html_report html_template (d\<lparr>timestamp := t\<rparr>),
                 generate_markdown_report (d\<lparr>timestamp := t\<rparr>))) \<and>
   (files ''maturity-assessment-report.json'' \<noteq> None \<longrightarrow>
      maturity_main json_load html_template now1 files =
      maturity_main json_load html_template now2 files)"
  by (auto simp: load_assessment_data_def maturity_main_def and_then_def default_data_def
        split: option.splits)

theorem reports_deterministic_witness:
  "[''maturity-assessment-report.json'' \<mapsto> ''{}''] ''maturity-assessment-report.json'' \<noteq> None \<and>
   maturity_main (accept (default_data ''2023-06-01T12:00:00'')) [Field ''timestamp'']
       ''2024-01-01T00:00:00'' [''maturity-assessment-report.json'' \<mapsto> ''{}''] =
   maturity_main (accept (default_data ''2023-06-01T12:00:00'')) [Field ''timestamp'']
       ''2025-01-01T00:00:00'' [''maturity-assessment-report.json'' \<mapsto> ''{}'']"
proof -
  have a: "[''maturity-assessment-report.json'' \<mapsto> ''{}''] ''maturity-assessment-report.json'' \<noteq> None"
    by simp
  from reports_deterministic [of "accept (default_data ''2023-06-01T12:00:00'')"
      "''2024-01-01T00:00:00''" "[''maturity-assessment-report.json'' \<mapsto> ''{}'']"
      "''maturity-assessment-report.json''" "[Field ''timestamp'']" "[]" "''2025-01-01T00:00:00''"] a
  show ?thesis by blast
qed

subsection \<open>Rounding to 53 bits\<close>

lemma scale2_powi: "scale2 x e = x * 2 powi e"
proof (cases "0 \<le> e")
  case True
  then show ?thesis unfolding scale2_def power_int_def by simp
next
  case False
  then have "scale2 x e = x / 2 ^ nat (- e)" by (simp add: scale2_def)
  moreover from False have "(2::rat) powi e = inverse (2 ^ nat (- e))"
    unfolding power_int_def by (simp add: power_one_over inverse_eq_divide)
  ultimately show ?thesis by (simp only: divide_inverse)
qed

lemma of_int_bitlen_lower: "0 < p \<Longrightarrow> (2::rat) powi (bitlen p - 1) \<le> of_int p"
proof -
  assume p: "0 < p"
  then have b: "1 \<le> bitlen p" by (auto simp: bitlen_alt_def)
  from bitlen_bounds [OF p] have "(2::int) ^ nat (bitlen p - 1) \<le> p" by simp
  then have "(of_int ((2::int) ^ nat (bitlen p - 1)) :: rat) \<le> of_int p"
    by (simp only: of_int_le_iff)
  then show ?thesis using b unfolding power_int_def by simp
qed

lemma of_int_bitlen_upper: "0 < q \<Longrightarrow> of_int q < (2::rat) powi (bitlen q)"
proof -
  assume q: "0 < q"
  from bitlen_bounds [OF q] have "q < (2::int) ^ nat (bitlen q)" by simp
  then have "(of_int q :: rat) < of_int ((2::int) ^ nat (bitlen q))"
    by (simp only: of_int_less_iff)
  then show ?thesis using bitlen_nonneg [of q] unfolding power_int_def by simp
qed

lemma ilog2_lower:
  assumes "0 < x"
  shows "2 powi (ilog2 x) \<le> x"
proof -
  obtain p q where pq: "quotient_of x = (p, q)" by (cases "quotient_of x")
  then have q: "0 < q" and x: "x = of_int p / of_int q"
    by (auto dest: quotient_of_denom_pos quotient_of_div)
  from assms x q have p: "0 < p" by (simp add: zero_less_divide_iff)
  let ?k = "bitlen p - bitlen q"
  have "(2::rat) powi (?k - 1) = 2 powi (bitlen p - 1) / 2 powi (bitlen q)"
    by (simp add: power_int_diff)
  also have "\<dots> \<le> of_int p / 2 powi (bitlen q)"
    using of_int_bitlen_lower [OF p] by (simp add: divide_right_mono)
  also have "\<dots> \<le> of_int p / of_int q"
    using of_int_bitlen_upper [OF q] p q by (intro divide_left_mono) simp_all
  finally have low: "(2::rat) powi (?k - 1) \<le> x" using x by simp
  show ?thesis
  proof (cases "1 \<le> scale2 x (- ?k)")
    case True
    then have il: "ilog2 x = ?k" using pq by (simp add: ilog2_def)
    have pos: "(0::rat) < 2 powi ?k" by simp
    from True have "1 \<le> x * inverse (2 powi ?k)"
      unfolding scale2_powi power_int_minus .
    then have "1 \<le> x / 2 powi ?k" by (simp add: divide_inverse)
    with pos have "2 powi ?k \<le> x" by (simp add: pos_le_divide_eq)
    with il show ?thesis by simp
  next
    case False
    then have "ilog2 x = ?k - 1" using pq by (simp add: ilog2_def)
    with low show ?thesis by simp
  qed
qed


lemma round_half_even_err: "\<bar>of_int (round_half_even y) - y\<bar> \<le> 1 / 2"
proof -
  have "of_int \<lfloor>y\<rfloor> \<le> y" and "y < of_int \<lfloor>y\<rfloor> + 1" by linarith+
  then show ?thesis by (auto simp: round_half_even_def Let_def)
qed

lemma round_half_even_near:
  assumes "\<bar>y - of_int k\<bar> < 1 / 2"
  shows "round_half_even y = k"
proof -
  have "\<bar>of_int (round_half_even y) - y\<bar> \<le> 1 / 2" by (rule round_half_even_err)
  with assms have "\<bar>(of_int (round_half_even y) :: rat) - of_int k\<bar> < 1" by linarith
  then have "\<bar>(of_int (round_half_even y - k) :: rat)\<bar> < of_int 1" by simp
  then have "\<bar>round_half_even y - k\<bar> < 1"
    by (simp only: of_int_abs [symmetric] of_int_less_iff)
  then show ?thesis by simp
qed

lemma round53_err:
  assumes "x \<noteq> 0"
  shows "\<bar>round53 x - x\<bar> \<le> \<bar>x\<bar> / 2 ^ 53"
proof -
  define e where "e = ilog2 \<bar>x\<bar> - 52"
  define y where "y = x * 2 powi (- e)"
  have pe: "(0::rat) < 2 powi e" by simp
  have r: "round53 x = of_int (round_half_even y) * 2 powi e"
    using assms by (simp add: round53_def Let_def scale2_powi e_def y_def)
  have "y * 2 powi e = x"
    by (simp add: y_def power_int_minus)
  then have "round53 x - x = (of_int (round_half_even y) - y) * 2 powi e"
    by (simp add: r algebra_simps)
  then have "\<bar>round53 x - x\<bar> = \<bar>of_int (round_half_even y) - y\<bar> * 2 powi e"
    by (simp add: abs_mult)
  also have "\<dots> \<le> 1 / 2 * 2 powi e"
    using round_half_even_err [of y] pe by (intro mult_right_mono) simp_all
  also have "(2::rat) powi e = 2 powi (ilog2 \<bar>x\<bar>) / 2 ^ 52"
    by (simp add: e_def power_int_diff)
  also have "1 / 2 * (2 powi (ilog2 \<bar>x\<bar>) / 2 ^ 52) \<le> 1 / 2 * (\<bar>x\<bar> / 2 ^ 52)"
    using ilog2_lower [of "\<bar>x\<bar>"] assms
    by (intro mult_left_mono divide_right_mono) simp_all
  finally show ?thesis by simp
qed



lemma round53_nonneg_bound:
  assumes "0 \<le> x" and "x \<le> b"
  shows "0 \<le> round53 x \<and> \<bar>round53 x - x\<bar> \<le> b / 2 ^ 53"
proof (cases "x = 0")
  case True
  with assms show ?thesis by (simp add: round53_def)
next
  case False
  from round53_err [OF False] assms have e: "\<bar>round53 x - x\<bar> \<le> x / 2 ^ 53" by simp
  have "x / 2 ^ 53 \<le> x" using assms(1) by (simp add: field_simps)
  with e have "0 \<le> round53 x" by linarith
  moreover have "x / 2 ^ 53 \<le> b / 2 ^ 53" using assms(2) by (simp add: divide_right_mono)
  ultimately show ?thesis using e by linarith
qed



lemma level_pct_bound:
  assumes "0 \<le> s" and "s \<le> m" and "0 < m"
  shows "\<exists>r. level_pct s m = Inr (Finite r) \<and> 0 \<le> r \<and>
           \<bar>r - of_int s / of_int m * 100\<bar> \<le> 1 / 2 ^ 40"
proof -
  define x :: rat where "x = of_int s / of_int m"
  define q where "q = round53 x"
  define r where "r = round53 (q * 100)"
  define u :: rat where "u = 1 / 2 ^ 53"
  have u: "0 \<le> u" "u \<le> 1 / 1000" "300 * u \<le> 1 / 2 ^ 40" by (simp_all add: u_def)
  have x: "0 \<le> x" "x \<le> 1" using assms by (simp_all add: x_def)
  from round53_nonneg_bound [OF x] have q: "0 \<le> q" "\<bar>q - x\<bar> \<le> u"
    by (simp_all add: q_def u_def)
  then have q2: "q \<le> 2" using x u by linarith
  then have y: "0 \<le> q * 100" "q * 100 \<le> 200" using q(1) by simp_all
  from round53_nonneg_bound [OF y] have r: "0 \<le> r" "\<bar>r - q * 100\<bar> \<le> 200 * u"
    by (simp_all add: r_def u_def)
  have "\<bar>q * 100 - x * 100\<bar> \<le> 100 * u" using q(2) by linarith
  with r(2) have "\<bar>r - x * 100\<bar> \<le> 300 * u" by linarith
  from this u(3) have err: "\<bar>r - x * 100\<bar> \<le> 1 / 2 ^ 40" by (rule order_trans)
  have "\<bar>q\<bar> \<le> 1000" using q(1) q2 by simp
  then have t: "truediv s m = Inr (Finite q)"
    using assms(3) truediv_small [of m s] by (simp add: q_def x_def)
  have "r \<le> 201" using r(2) y(2) u by linarith
  then have "\<bar>round53 (q * 100)\<bar> \<le> 1000" using r(1) by (simp add: r_def)
  then have "fmul (Finite q) 100 = Finite r" unfolding r_def by (rule fmul_small)
  with t have "level_pct s m = Inr (Finite r)" by (simp add: level_pct_def)
  with r(1) err show ?thesis by (auto simp: x_def)
qed

lemma nearest_int_scaled:
  assumes "m \<in> {20, 35, 25, 15}" and "0 \<le> s" and "s \<le> (m::int)"
  shows "\<exists>k. 0 \<le> k \<and> k \<le> 100 \<and> \<bar>7 * (k * m - s * 100)\<bar> \<le> 3 * m"
proof -
  consider "m = 20" | "m = 35" | "m = 25" | "m = 15" using assms(1) by auto
  then show ?thesis
  proof cases
    case 1
    with assms have "0 \<le> 5 * s \<and> 5 * s \<le> 100 \<and> \<bar>7 * (5 * s * m - s * 100)\<bar> \<le> 3 * m" by simp
    then show ?thesis by blast
  next
    case 2
    define k where "k = (20 * s + 3) div 7"
    have "7 * k \<le> 20 * s + 3" "20 * s + 3 < 7 * k + 7" unfolding k_def by presburger+
    with assms 2 have "0 \<le> k \<and> k \<le> 100 \<and> \<bar>7 * (k * m - s * 100)\<bar> \<le> 3 * m" by simp
    then show ?thesis by blast
  next
    case 3
    with assms have "0 \<le> 4 * s \<and> 4 * s \<le> 100 \<and> \<bar>7 * (4 * s * m - s * 100)\<bar> \<le> 3 * m" by simp
    then show ?thesis by blast
  next
    case 4
    define k where "k = (20 * s + 1) div 3"
    have "3 * k \<le> 20 * s + 1" "20 * s + 1 < 3 * k + 3" unfolding k_def by presburger+
    with assms 4 have "0 \<le> k \<and> k \<le> 100 \<and> \<bar>7 * (k * m - s * 100)\<bar> \<le> 3 * m" by simp
    then show ?thesis by blast
  qed
qed


lemma nearest_exists:
  assumes "m \<in> {20, 35, 25, 15}" and "0 \<le> s" and "s \<le> (m::int)"
  shows "\<exists>k. 0 \<le> k \<and> k \<le> 100 \<and> \<bar>of_int k - of_int s / of_int m * (100::rat)\<bar> \<le> 3 / 7"
proof -
  from nearest_int_scaled [OF assms] obtain k
    where k: "0 \<le> k" "k \<le> 100" "\<bar>7 * (k * m - s * 100)\<bar> \<le> 3 * m" by blast
  have m: "(0::rat) < of_int m" using assms(1) by auto
  define d :: rat where "d = of_int k * of_int m - of_int s * 100"
  from k(3) have "(of_int \<bar>7 * (k * m - s * 100)\<bar> :: rat) \<le> of_int (3 * m)"
    by (simp only: of_int_le_iff)
  then have "\<bar>7 * d\<bar> \<le> 3 * of_int m" by (simp add: d_def)
  then have d: "\<bar>d\<bar> \<le> 3 / 7 * of_int m" by (simp add: abs_mult)
  have e1: "of_int k - of_int s / of_int m * (100::rat) = d / of_int m"
    using m by (simp add: d_def field_simps)
  have e2: "\<bar>d / of_int m\<bar> = \<bar>d\<bar> / of_int m" using m by (simp add: abs_divide)
  have e3: "\<bar>d\<bar> / of_int m \<le> 3 / 7"
    using d m by (simp only: pos_divide_le_eq)
  have "\<bar>of_int k - of_int s / of_int m * (100::rat)\<bar> \<le> 3 / 7"
    unfolding e1 e2 by (rule e3)
  with k show ?thesis by blast
qed

subsection \<open>The level percentages\<close>

lemma round53_fifth: "round53 (1 / 5) = 3602879701896397 / 18014398509481984" by code_simp

lemma round53_20: "round53 (90071992547409925 / 4503599627370496) = 20" by code_simp

text \<open>
  C3. For a score between 0 and the category maximum (20, 35, 25 or 15), the quotient
  \<open>(score / maximum) * 100\<close> is computed without error, and both its roundings, \<open>round\<close> for
  the HTML arguments and the format \<open>.0f\<close> for the Markdown table, give the integer nearest
  to the exact value of \<open>score / maximum * 100\<close>; it lies between 0 and 100. The division
  never raises \<open>ZeroDivisionError\<close>, whatever the score.
\<close>

theorem level_percentage:
  assumes "m \<in> {20, 35, 25, 15}" and "0 \<le> s" and "s \<le> m"
  shows "\<exists>x p. level_pct s m = Inr x \<and> py_round x = Inr p \<and> format_0f x = str_int p \<and>
           html_pct s m = Inr p \<and> markdown_pct s m = Inr (str_int p) \<and>
           \<bar>of_int p - of_int s / of_int m * (100::rat)\<bar> < 1 / 2 \<and>
           (\<forall>k. \<bar>of_int p - of_int s / of_int m * (100::rat)\<bar>
                  \<le> \<bar>of_int k - of_int s / of_int m * (100::rat)\<bar>) \<and>
           0 \<le> p \<and> p \<le> 100 \<and>
           (\<forall>s'. truediv s' m \<noteq> Inl ZeroDivisionError)"
proof -
  define c :: rat where "c = of_int s / of_int m * 100"
  have m: "0 < m" using assms(1) by auto
  from level_pct_bound [OF assms(2,3) m] obtain r
    where r: "level_pct s m = Inr (Finite r)" "0 \<le> r" "\<bar>r - c\<bar> \<le> 1 / 2 ^ 40"
    unfolding c_def by blast
  from nearest_exists [OF assms] obtain p
    where p: "0 \<le> p" "p \<le> 100" "\<bar>of_int p - c\<bar> \<le> 3 / 7"
    unfolding c_def by blast
  have small: "(1::rat) / 2 ^ 40 \<le> 1 / 100" by simp
  from r(3) p(3) small have "\<bar>r - of_int p\<bar> < 1 / 2" by linarith
  then have rp: "round_half_even r = p" by (rule round_half_even_near)
  have round: "py_round (Finite r) = Inr p" by (simp add: rp)
  have "\<bar>r\<bar> = r" using r(2) by simp
  then have fmt: "format_0f (Finite r) = str_int p"
    using r(2) p(1) rp by (simp add: str_int_def del: str_nat.simps)
  have html: "html_pct s m = Inr p" by (simp add: html_pct_def r(1) rp)
  have md: "markdown_pct s m = Inr (str_int p)" by (simp add: markdown_pct_def r(1) fmt del: format_0f.simps)
  have near: "\<bar>of_int p - c\<bar> \<le> \<bar>of_int k - c\<bar>" for k :: int
  proof (cases "k = p")
    case True
    then show ?thesis by simp
  next
    case False
    then have "1 \<le> \<bar>k - p\<bar>" by simp
    then have "(of_int 1 :: rat) \<le> of_int \<bar>k - p\<bar>" by (simp only: of_int_le_iff)
    then have "(1::rat) \<le> \<bar>of_int k - of_int p\<bar>" by simp
    with p(3) show ?thesis by linarith
  qed
  have nz: "truediv s' m \<noteq> Inl ZeroDivisionError" for s'
    using m by (simp add: truediv_def Let_def)
  from p(3) have lt: "\<bar>of_int p - c\<bar> < 1 / 2" by simp
  from r(1) round fmt html md lt near p(1,2) nz show ?thesis
    unfolding c_def by blast
qed


theorem level_percentage_witness:
  "(35::int) \<in> {20, 35, 25, 15} \<and> (0::int) \<le> 7 \<and> (7::int) \<le> 35 \<and>
   level_pct 7 35 = Inr (Finite 20) \<and> html_pct 7 35 = Inr 20 \<and> markdown_pct 7 35 = Inr ''20''"
proof -
  have h: "(35::int) \<in> {20, 35, 25, 15}" "(0::int) \<le> 7" "(7::int) \<le> 35" by simp_all
  from level_percentage [OF h] obtain x p
    where a: "html_pct 7 35 = Inr p" "markdown_pct 7 35 = Inr (str_int p)"
      and b: "\<bar>of_int p - of_int 7 / of_int 35 * (100::rat)\<bar> < 1 / 2"
    by blast
  from b have "\<bar>(of_int p :: rat) - of_int 20\<bar> < of_int 1" by simp
  then have "\<bar>(of_int (p - 20) :: rat)\<bar> < of_int 1" by simp
  then have "\<bar>p - 20\<bar> < 1" by (simp only: of_int_abs [symmetric] of_int_less_iff)
  then have p: "p = 20" by simp
  have l: "level_pct 7 35 = Inr (Finite 20)"
    using dbl_max_big by (simp add: level_pct_def truediv_small fmul_small round53_fifth round53_20)
  from a p l h show ?thesis by (simp add: str_int_small)
qed

text \<open>
  The HTML report itself is not rendered: the arguments are computed, then \<open>format\<close> comes to
  the style sheet's first brace and raises \<open>KeyError\<close>.
\<close>

lemma and_then_Inr: "and_then r f = Inr v \<Longrightarrow> \<exists>a. r = Inr a \<and> f a = Inr v"
  by (cases r) (simp_all add: and_then_def)

lemma html_fields_keys:
  "html_fields d = Inr kw \<Longrightarrow>
     map fst kw =
       [''timestamp'', ''maturity_level'', ''percentage'', ''total_score'', ''level1_score'',
        ''level2_score'', ''level3_score'', ''level4_score'', ''level5_score'', ''level1_pct'',
        ''level2_pct'', ''level3_pct'', ''level4_pct'', ''level5_pct'', ''recommendations'']"
  unfolding html_fields_def Let_def
  by (auto dest!: and_then_Inr)

lemma html_report_never_renders:
  assumes "html_fields d = Inr kw"
  shows "generate_html_report (report_template head rest) d =
           Inl (KeyError ''\<newline>            font-family'')"
proof -
  have "''\<newline>            font-family'' \<notin> set (map fst kw)"
    unfolding html_fields_keys [OF assms] by simp
  then have "map_of kw ''\<newline>            font-family'' = None"
    by (simp add: map_of_eq_None_iff)
  with assms show ?thesis
    by (simp add: generate_html_report_def report_template_def and_then_def)
qed

end
